theory Spec2Isabelle
  imports Main
begin

section \<open>JavaScript values, thrown errors and promises\<close>

text \<open>
  The worker is JavaScript. Values that travel through it untyped (option values of an
  interaction, response envelopes, embeds, message components) are \<open>jsval\<close>. Numbers
  are integers here: the code only uses small integer constants of the Discord API.
\<close>

datatype jsval =
    JUndefined
  | JNull
  | JBool bool
  | JNum int
  | JStr string
  | JArr "jsval list"
  | JObj "(string \<times> jsval) list"

text \<open>What \<open>v || d\<close> and \<open>!v\<close> test.\<close>

fun truthy :: "jsval \<Rightarrow> bool" where
  "truthy JUndefined = False"
| "truthy JNull = False"
| "truthy (JBool b) = b"
| "truthy (JNum n) = (n \<noteq> 0)"
| "truthy (JStr s) = (s \<noteq> [])"
| "truthy (JArr _) = True"
| "truthy (JObj _) = True"

definition or_else :: "jsval \<Rightarrow> jsval \<Rightarrow> jsval" where
  "or_else v d = (if truthy v then v else d)"

text \<open>A thrown value: an Error object with its \<open>name\<close>, \<open>message\<close> and optional \<open>code\<close>.\<close>

record js_error =
  err_name :: string
  message :: string
  code :: "string option"

definition type_error :: "string \<Rightarrow> js_error" where
  "type_error m = \<lparr>err_name = ''TypeError'', message = m, code = None\<rparr>"

text \<open>
  How a promise ends: fulfilled with a value, rejected with an error, or never settled.
  A call of an asynchronous collaborator is modelled by the way its promise ends.
\<close>

datatype 'a promise = Resolved 'a | Rejected js_error | Pending

text \<open>\<open>p.catch(() => {})\<close>: a rejection of \<open>p\<close> is handled and becomes a fulfilment.\<close>

fun swallow :: "'a promise \<Rightarrow> unit promise" where
  "swallow (Resolved _) = Resolved ()"
| "swallow (Rejected _) = Resolved ()"
| "swallow Pending = Pending"

text \<open>
  \<open>String.prototype.trim\<close>. A \<open>string\<close> is a sequence of code units below 256, each
  \<open>char\<close> the code unit of its number. Of these, white space and line terminators are
  TAB, LF, VT, FF, CR, SPACE and the no-break space U+00A0; the other white space of
  JavaScript (U+1680, U+2000 to U+200A, U+2028, U+2029, U+202F, U+205F, U+3000, U+FEFF)
  lies above U+00FF and is no \<open>char\<close>.
\<close>

definition is_space :: "char \<Rightarrow> bool" where
  "is_space c =
     (c \<in> set [CHR 0x09, CHR 0x0A, CHR 0x0B, CHR 0x0C, CHR 0x0D, CHR 0x20, CHR 0xA0])"

definition trim :: "string \<Rightarrow> string" where
  "trim s = rev (dropWhile is_space (rev (dropWhile is_space s)))"

section \<open>Requests, interactions and responses\<close>

text \<open>
  An inbound request, with its URL already split (\<open>new URL(request.url).pathname\<close>) and
  its body as the text \<open>request.text()\<close> yields.
\<close>

record request =
  req_method :: string
  req_pathname :: string
  req_headers :: "(string \<times> string) list"
  req_text :: string

text \<open>
  A parsed interaction, with the fields the worker reads: \<open>body.type\<close>, \<open>body.token\<close>,
  \<open>body.data.id\<close>, \<open>body.data.name\<close>, \<open>body.data.custom_id\<close> and \<open>body.data.options\<close>,
  each option an object with a \<open>name\<close> and a \<open>value\<close>.
\<close>

record option_entry =
  opt_name :: string
  opt_value :: jsval

record interaction_data =
  data_id :: string
  data_name :: string
  custom_id :: string
  data_options :: "option_entry list"

record interaction =
  itype :: int
  token :: string
  idata :: interaction_data

text \<open>The constants of \<open>discord-api-types/payloads/v9\<close> that the code imports.\<close>

definition InteractionType_Ping :: int where "InteractionType_Ping = 1"
definition InteractionType_ApplicationCommand :: int where "InteractionType_ApplicationCommand = 2"
definition InteractionType_MessageComponent :: int where "InteractionType_MessageComponent = 3"

definition InteractionResponseType_Pong :: int where "InteractionResponseType_Pong = 1"
definition InteractionResponseType_ChannelMessageWithSource :: int where
  "InteractionResponseType_ChannelMessageWithSource = 4"
definition InteractionResponseType_DeferredChannelMessageWithSource :: int where
  "InteractionResponseType_DeferredChannelMessageWithSource = 5"

definition MessageFlags_Ephemeral :: int where "MessageFlags_Ephemeral = 64"
definition ComponentType_ActionRow :: int where "ComponentType_ActionRow = 1"

text \<open>
  A \<open>Response\<close>. \<open>JsonBody v\<close> stands for the text \<open>JSON.stringify(v)\<close>; the status of
  \<open>new Response(b, {headers})\<close> is 200.
\<close>

datatype body = JsonBody jsval | TextBody string

record response =
  status :: nat
  headers :: "(string \<times> string) list"
  rbody :: "body option"

definition jsonResponse :: "jsval \<Rightarrow> response" where
  "jsonResponse obj =
     \<lparr>status = 200, headers = [(''Content-Type'', ''application/json'')],
      rbody = Some (JsonBody obj)\<rparr>"

definition redirectResponse :: "string \<Rightarrow> response" where
  "redirectResponse url = \<lparr>status = 301, headers = [(''Location'', url)], rbody = None\<rparr>"

definition statusResponse :: "nat \<Rightarrow> response" where
  "statusResponse s = \<lparr>status = s, headers = [], rbody = None\<rparr>"

section \<open>Effects: the calls a run makes, in order\<close>

text \<open>The arguments of \<open>handleDig\<close>: \<open>{ domain, types, options: { short, cdflag }, provider }\<close>.\<close>

record provider =
  provider_name :: string
  provider_config :: jsval

record dig_opts =
  opts_domain :: string
  opts_types :: "string list"
  opts_short :: jsval
  opts_cdflag :: jsval
  opts_provider :: "provider option"

text \<open>
  Every call on a collaborator, and every \<open>Response\<close> the code builds, is an event; a run
  is described by the list of its events in the order in which they happen.
\<close>

datatype event =
    SetRequestBodyText string
  | VerifyCalled request string
  | JSONParse string
  | SetRequestBody interaction
  | SetTransactionName string
  | SetTag string string
  | CommandLookup string
  | Import string
  | Execute string
  | ConsoleLog interaction
  | CaptureException js_error
  | HandleDig dig_opts
  | EditDeferred interaction jsval
  | WaitUntil
  | ResponseCreated response

fun is_capture :: "event \<Rightarrow> bool" where
  "is_capture (CaptureException _) = True"
| "is_capture _ = False"

fun is_edit :: "event \<Rightarrow> bool" where
  "is_edit (EditDeferred _ _) = True"
| "is_edit _ = False"

text \<open>
  A background task handed to \<open>wait\<close>: an invoked async function. Its body runs at once
  up to its first \<open>await\<close> (\<open>started\<close>); the rest (\<open>resumed\<close>) runs in a later turn of the
  event loop, after the code that invoked it has run to its end. \<open>settles\<close> is how the
  promise given to \<open>wait\<close> ends, \<open>floating\<close> the promises it left behind unawaited.
\<close>

record task =
  started :: "event list"
  resumed :: "event list"
  settles :: "unit promise"
  floating :: "unit promise list"

text \<open>
  The run of an async function of the request path: its events, what it returns or throws
  (\<open>Inl\<close> the thrown error), and the background tasks it gave to \<open>wait\<close>.
\<close>

record run =
  trace :: "event list"
  result :: "js_error + response"
  background :: "task list"

definition after :: "event list \<Rightarrow> run \<Rightarrow> run" where
  "after es r = r\<lparr>trace := es @ trace r\<rparr>"

definition returns :: "event list \<Rightarrow> response \<Rightarrow> run" where
  "returns es resp = \<lparr>trace = es @ [ResponseCreated resp], result = Inr resp, background = []\<rparr>"

definition throws :: "event list \<Rightarrow> js_error \<Rightarrow> run" where
  "throws es err = \<lparr>trace = es, result = Inl err, background = []\<rparr>"

section \<open>The collaborators of the router\<close>

text \<open>
  A handler unit is the \<open>execute\<close> of a module's default export, called with
  \<open>{ interaction, response, wait, sentry }\<close>: \<open>response\<close> is passed, \<open>wait\<close> and \<open>sentry\<close> are
  the effects of its run.
\<close>

type_synonym handler = "(jsval \<Rightarrow> response) \<Rightarrow> interaction \<Rightarrow> run"

datatype module = LoadFails js_error | Exports handler

record command_data =
  cmd_file :: string

text \<open>
  What \<open>index.js\<close> imports and does not define: \<open>verify\<close> (a boolean answer for a
  request and its body text), the table \<open>tmp/commands.json\<close>, the modules that a dynamic
  \<open>import\<close> can reach (by path), the texts \<open>Privacy\<close> and \<open>Terms\<close>,
  \<open>process.env.CLIENT_ID\<close>, and \<open>JSON.parse\<close> read at the type of an interaction (a body
  text either fails to parse or is an interaction). \<open>commands\<close> holds the own properties
  of the table, the entries of the JSON file.
\<close>

record env =
  verify :: "request \<Rightarrow> string \<Rightarrow> bool"
  JSON_parse :: "string \<Rightarrow> js_error + interaction"
  commands :: "string \<rightharpoonup> command_data"
  modules :: "string \<rightharpoonup> module"
  Privacy :: string
  Terms :: string
  CLIENT_ID :: string

definition module_not_found :: "string \<Rightarrow> js_error" where
  "module_not_found path =
     \<lparr>err_name = ''Error'', message = ''Cannot find module '' @ path,
      code = Some ''MODULE_NOT_FOUND''\<rparr>"

text \<open>
  Modelled from the spec: the module loader behind \<open>await import(path)\<close>, which is the
  bundler's and not in the sources. A path with no module is the "no such module"
  condition, signalled by an error whose \<open>code\<close> is \<open>MODULE_NOT_FOUND\<close>; a module that
  exists can still throw while it loads.
\<close>

definition import_module :: "env \<Rightarrow> string \<Rightarrow> js_error + handler" where
  "import_module e path =
     (case modules e path of
        None \<Rightarrow> Inl (module_not_found path)
      | Some (LoadFails err) \<Rightarrow> Inl err
      | Some (Exports h) \<Rightarrow> Inr h)"

text \<open>
  \<open>commands[key]\<close>. The table is a plain object, so a key that is not an entry of the file
  still reads a property that every object inherits from \<open>Object.prototype\<close>. Each of these
  is a function or, for \<open>__proto__\<close>, the prototype itself: a truthy value with no \<open>file\<close>.
\<close>

definition Object_prototype_properties :: "string list" where
  "Object_prototype_properties =
     [''constructor'', ''__defineGetter__'', ''__defineSetter__'', ''hasOwnProperty'',
      ''__lookupGetter__'', ''__lookupSetter__'', ''isPrototypeOf'', ''propertyIsEnumerable'',
      ''toString'', ''valueOf'', ''__proto__'', ''toLocaleString'']"

datatype registry_value = Descriptor command_data | Inherited

definition commands_get :: "env \<Rightarrow> string \<Rightarrow> registry_value option" where
  "commands_get e key =
     (case commands e key of
        Some c \<Rightarrow> Some (Descriptor c)
      | None \<Rightarrow> if key \<in> set Object_prototype_properties then Some Inherited else None)"

section \<open>index.js\<close>

definition apology :: response where
  "apology = jsonResponse (JObj
     [(''type'', JNum InteractionResponseType_ChannelMessageWithSource),
      (''data'', JObj
         [(''content'', JStr ''An unexpected error occurred when executing the command.''),
          (''flags'', JNum MessageFlags_Ephemeral)])])"

definition command_path :: "command_data \<Rightarrow> string" where
  "command_path commandData = ''./commands/'' @ cmd_file commandData"

text \<open>
  The path \<open>`./commands/${commandData.file}`\<close> of the value read from the table: the
  template splices the \<open>file\<close> that an inherited value lacks as the text \<open>undefined\<close>.
\<close>

definition import_path :: "registry_value \<Rightarrow> string" where
  "import_path commandData =
     (case commandData of
        Descriptor c \<Rightarrow> command_path c
      | Inherited \<Rightarrow> ''./commands/undefined'')"

definition component_path :: "interaction \<Rightarrow> string" where
  "component_path body = ''./components/'' @ custom_id (idata body) @ ''.js''"

text \<open>The \<open>try\<close> block of \<open>handleCommandInteraction\<close>: load the command, execute it.\<close>

definition command_try :: "env \<Rightarrow> registry_value \<Rightarrow> interaction \<Rightarrow> run" where
  "command_try e commandData body =
     (let path = import_path commandData in
      case import_module e path of
        Inl err \<Rightarrow> throws [Import path] err
      | Inr command \<Rightarrow> after [Import path, Execute path] (command jsonResponse body))"

definition handleCommandInteraction :: "env \<Rightarrow> interaction \<Rightarrow> run" where
  "handleCommandInteraction e body =
     after [SetTransactionName (''command: '' @ data_name (idata body)),
            SetTag ''command'' (data_name (idata body)),
            CommandLookup (data_id (idata body))]
       (case commands_get e (data_id (idata body)) of
          None \<Rightarrow> returns [] (statusResponse 404)
        | Some commandData \<Rightarrow>
            (let r = command_try e commandData body in
             case result r of
               Inr resp \<Rightarrow> r
             | Inl err \<Rightarrow>
                 \<lparr>trace = trace r @ [ConsoleLog body, CaptureException err, ResponseCreated apology],
                  result = Inr apology,
                  background = background r\<rparr>))"

text \<open>The \<open>try\<close> block of \<open>handleComponentInteraction\<close>.\<close>

definition component_try :: "env \<Rightarrow> interaction \<Rightarrow> run" where
  "component_try e body =
     (let path = component_path body in
      case import_module e path of
        Inl err \<Rightarrow> throws [Import path] err
      | Inr component \<Rightarrow> after [Import path, Execute path] (component jsonResponse body))"

definition handleComponentInteraction :: "env \<Rightarrow> interaction \<Rightarrow> run" where
  "handleComponentInteraction e body =
     after [SetTransactionName (''component: '' @ custom_id (idata body)),
            SetTag ''component'' (custom_id (idata body))]
       (let r = component_try e body in
        case result r of
          Inr resp \<Rightarrow> r
        | Inl err \<Rightarrow>
            if code err = Some ''MODULE_NOT_FOUND''
            then \<lparr>trace = trace r @ [ResponseCreated (statusResponse 404)],
                  result = Inr (statusResponse 404),
                  background = background r\<rparr>
            else \<lparr>trace = trace r @ [ConsoleLog body, CaptureException err,
                                     ResponseCreated (statusResponse 500)],
                  result = Inr (statusResponse 500),
                  background = background r\<rparr>)"

definition handleInteraction :: "env \<Rightarrow> request \<Rightarrow> run" where
  "handleInteraction e request =
     (let bodyText = req_text request in
      after [SetRequestBodyText bodyText, VerifyCalled request bodyText]
        (if \<not> verify e request bodyText then returns [] (statusResponse 401)
         else case JSON_parse e bodyText of
           Inl err \<Rightarrow> throws [JSONParse bodyText] err
         | Inr body \<Rightarrow>
             after [JSONParse bodyText, SetRequestBody body]
               (if itype body = InteractionType_Ping then
                  returns [] (jsonResponse (JObj [(''type'', JNum InteractionResponseType_Pong)]))
                else if itype body = InteractionType_ApplicationCommand then
                  handleCommandInteraction e body
                else if itype body = InteractionType_MessageComponent then
                  handleComponentInteraction e body
                else returns [] (statusResponse 501))))"

definition textResponse :: "string \<Rightarrow> (string \<times> string) list \<Rightarrow> response" where
  "textResponse t hs = \<lparr>status = 200, headers = hs, rbody = Some (TextBody t)\<rparr>"

definition handleRequest :: "env \<Rightarrow> request \<Rightarrow> run" where
  "handleRequest e request =
     (if req_method request = ''POST'' \<and> req_pathname request = ''/interactions''
      then handleInteraction e request
      else if req_method request \<noteq> ''GET'' then returns [] (statusResponse 404)
      else if req_pathname request = ''/health'' then
        returns [] (textResponse ''OK''
          [(''Content-Type'', ''text/plain''),
           (''Cache-Control'', ''no-store, no-cache, must-revalidate, proxy-revalidate''),
           (''Expires'', ''0''),
           (''Surrogate-Control'', ''no-store'')])
      else if req_pathname request = ''/privacy'' then
        returns [] (textResponse (Privacy e) [(''Content-Type'', ''text/plain'')])
      else if req_pathname request = ''/terms'' then
        returns [] (textResponse (Terms e) [(''Content-Type'', ''text/plain'')])
      else if req_pathname request = ''/invite'' then
        returns [] (redirectResponse (''https://discord.com/oauth2/authorize?client_id=''
          @ CLIENT_ID e @ ''&scope=applications.commands''))
      else if req_pathname request = ''/server'' then
        returns [] (redirectResponse ''https://discord.gg/JgxVfGn'')
      else if req_pathname request = ''/github'' then
        returns [] (redirectResponse ''https://github.com/MattIPv4/DNS-over-Discord'')
      else if req_pathname request = ''/'' then
        returns [] (redirectResponse
          ''https://developers.cloudflare.com/1.1.1.1/other-ways-to-use-1.1.1.1/dns-over-discord'')
      else returns [] (statusResponse 404))"

text \<open>
  The \<open>fetch\<close> listener: \<open>handleRequest(...).catch(err => { captureException(err, sentry);
  throw err; })\<close> is what \<open>event.respondWith\<close> receives.
\<close>

definition fetch_listener :: "env \<Rightarrow> request \<Rightarrow> run" where
  "fetch_listener e request =
     (let r = handleRequest e request in
      case result r of
        Inr resp \<Rightarrow> r
      | Inl err \<Rightarrow> r\<lparr>trace := trace r @ [CaptureException err]\<rparr>)"

section \<open>The dig command\<close>

text \<open>
  What the dig command imports and does not define: the table \<open>VALID_TYPES\<close>, the table
  \<open>providers\<close>, \<open>validateDomain\<close> (which returns \<open>{ domain, error }\<close>, the error a response
  built with the responder it is given), \<open>handleDig\<close> and \<open>editDeferred\<close> (asynchronous:
  each call is given by the way its promise ends), and the two components of the reply.
\<close>

record validation =
  vd_domain :: string
  vd_error :: "response option"

record dig_env =
  VALID_TYPES :: "string list"
  providers :: "provider list"
  validateDomain :: "string \<Rightarrow> (jsval \<Rightarrow> response) \<Rightarrow> validation"
  handleDig :: "dig_opts \<Rightarrow> jsval list promise"
  editDeferred :: "interaction \<Rightarrow> jsval \<Rightarrow> unit promise"
  digProvider_component :: "string \<Rightarrow> jsval"
  digRefresh_component :: jsval

text \<open>\<open>(options.find(opt => opt.name === n) || {}).value\<close>\<close>

definition option_value :: "option_entry list \<Rightarrow> string \<Rightarrow> jsval" where
  "option_value opts n =
     (case find (\<lambda>opt. opt_name opt = n) opts of
        None \<Rightarrow> JUndefined
      | Some opt \<Rightarrow> opt_value opt)"

text \<open>
  \<open>(v || '').trim()\<close>: a string is trimmed; any other truthy value has no \<open>trim\<close>, and
  the call throws a TypeError.
\<close>

definition raw_string :: "option_entry list \<Rightarrow> string \<Rightarrow> js_error + string" where
  "raw_string opts n =
     (case or_else (option_value opts n) (JStr []) of
        JStr s \<Rightarrow> Inr (trim s)
      | _ \<Rightarrow> Inl (type_error ''trim is not a function''))"

definition raw_flag :: "option_entry list \<Rightarrow> string \<Rightarrow> jsval" where
  "raw_flag opts n = or_else (option_value opts n) (JBool False)"

text \<open>The values on which \<open>(v || '').trim()\<close> does not throw: a string, or a falsy value.\<close>

fun trimmable :: "jsval \<Rightarrow> bool" where
  "trimmable (JStr s) = True"
| "trimmable v = (\<not> truthy v)"

definition deferred_ack :: jsval where
  "deferred_ack = JObj [(''type'', JNum InteractionResponseType_DeferredChannelMessageWithSource)]"

definition failure_message :: jsval where
  "failure_message =
     JObj [(''content'', JStr ''Sorry, something went wrong when processing your DNS query'')]"

text \<open>The reply that the background task writes over the deferred response.\<close>

definition dig_reply :: "dig_env \<Rightarrow> jsval \<Rightarrow> provider \<Rightarrow> jsval" where
  "dig_reply d emb p =
     JObj [(''embeds'', JArr [emb]),
           (''components'', JArr
              [JObj [(''type'', JNum ComponentType_ActionRow),
                     (''components'', JArr [digProvider_component d (provider_name p)])],
               JObj [(''type'', JNum ComponentType_ActionRow),
                     (''components'', JArr [digRefresh_component d])]])]"

text \<open>
  The body of the async function given to \<open>wait\<close>: the events before its first \<open>await\<close>,
  the events after it, and how its promise ends. \<open>handleDig\<close> is called at once; the
  edit is made once \<open>handleDig\<close> has resolved; \<open>provider.name\<close> throws when \<open>provider\<close> is
  undefined.
\<close>

definition dig_work ::
  "dig_env \<Rightarrow> interaction \<Rightarrow> dig_opts \<Rightarrow> event list \<times> event list \<times> unit promise" where
  "dig_work d interaction opts =
     (case handleDig d opts of
        Pending \<Rightarrow> ([HandleDig opts], [], Pending)
      | Rejected err \<Rightarrow> ([HandleDig opts], [], Rejected err)
      | Resolved embeds \<Rightarrow>
          (let emb = (case embeds of [] \<Rightarrow> JUndefined | x # _ \<Rightarrow> x) in
           case opts_provider opts of
             None \<Rightarrow>
               ([HandleDig opts], [],
                Rejected (type_error ''Cannot read properties of undefined (reading name)''))
           | Some p \<Rightarrow>
               ([HandleDig opts], [EditDeferred interaction (dig_reply d emb p)],
                editDeferred d interaction (dig_reply d emb p))))"

text \<open>
  The task given to \<open>wait\<close>: the work with its \<open>catch\<close> handler, which reports the error,
  starts the fallback edit (its own rejection handled by an empty \<open>catch\<close>) and throws
  the error again.
\<close>

definition dig_task :: "dig_env \<Rightarrow> interaction \<Rightarrow> dig_opts \<Rightarrow> task" where
  "dig_task d interaction opts =
     (case dig_work d interaction opts of
        (s, r, Rejected err) \<Rightarrow>
          \<lparr>started = s,
           resumed = r @ [CaptureException err, EditDeferred interaction failure_message],
           settles = Rejected err,
           floating = [swallow (editDeferred d interaction failure_message)]\<rparr>
      | (s, r, p) \<Rightarrow> \<lparr>started = s, resumed = r, settles = p, floating = []\<rparr>)"

text \<open>
  \<open>providers.find(p => p.name === rawProvider) || providers[0]\<close>; \<open>providers[0]\<close> of an
  empty table is undefined.
\<close>

definition choose_provider :: "provider list \<Rightarrow> string \<Rightarrow> provider option" where
  "choose_provider ps rawProvider =
     (case find (\<lambda>p. provider_name p = rawProvider) ps of
        Some p \<Rightarrow> Some p
      | None \<Rightarrow> (case ps of [] \<Rightarrow> None | p # _ \<Rightarrow> Some p))"

text \<open>The options the background task is started with (lines 66 to 80 of the command).\<close>

definition dig_options ::
  "dig_env \<Rightarrow> string \<Rightarrow> string \<Rightarrow> jsval \<Rightarrow> jsval \<Rightarrow> string \<Rightarrow> dig_opts" where
  "dig_options d domain rawType rawShort rawCdflag rawProvider =
     \<lparr>opts_domain = domain,
      opts_types = [if rawType \<in> set (VALID_TYPES d) then rawType else ''A''],
      opts_short = rawShort,
      opts_cdflag = rawCdflag,
      opts_provider = choose_provider (providers d) rawProvider\<rparr>"

text \<open>The raw values read from the interaction (lines 56 to 60), in the order of the source.\<close>

record raw =
  rawDomain :: string
  rawType :: string
  rawShort :: jsval
  rawCdflag :: jsval
  rawProvider :: string

definition raw_values :: "option_entry list \<Rightarrow> js_error + raw" where
  "raw_values options =
     (case raw_string options ''domain'' of
        Inl err \<Rightarrow> Inl err
      | Inr rd \<Rightarrow>
     (case raw_string options ''type'' of
        Inl err \<Rightarrow> Inl err
      | Inr rt \<Rightarrow>
     (case raw_string options ''provider'' of
        Inl err \<Rightarrow> Inl err
      | Inr rp \<Rightarrow>
          Inr \<lparr>rawDomain = rd, rawType = rt,
               rawShort = raw_flag options ''short'',
               rawCdflag = raw_flag options ''cdflag'',
               rawProvider = rp\<rparr>)))"

definition execute :: "dig_env \<Rightarrow> (jsval \<Rightarrow> response) \<Rightarrow> interaction \<Rightarrow> run" where
  "execute d response interaction =
     (case raw_values (data_options (idata interaction)) of
        Inl err \<Rightarrow> throws [] err
      | Inr rv \<Rightarrow>
          (let v = validateDomain d (rawDomain rv) response in
           case vd_error v of
             Some error \<Rightarrow> \<lparr>trace = [], result = Inr error, background = []\<rparr>
           | None \<Rightarrow>
               (let t = dig_task d interaction
                          (dig_options d (vd_domain v) (rawType rv) (rawShort rv) (rawCdflag rv)
                             (rawProvider rv)) in
                \<lparr>trace = started t @ [WaitUntil, ResponseCreated (response deferred_ack)],
                 result = Inr (response deferred_ack),
                 background = [t]\<rparr>)))"

text \<open>
  The order of events of one call of \<open>execute\<close>: its own events, then the resumed parts of
  the tasks it gave to \<open>wait\<close>. \<open>execute\<close> has no \<open>await\<close> of its own, so it runs to its
  \<open>return\<close> before any resumed part.
\<close>

definition timeline :: "run \<Rightarrow> event list" where
  "timeline r = trace r @ concat (map resumed (background r))"

section \<open>A concrete worker\<close>

text \<open>
  One set of collaborators on which every definition above evaluates: two DNS providers,
  a few record types, a resolver that fails on one domain, a registry with the dig command
  and a command that throws, and three component modules.
\<close>

definition cloudflare :: provider where
  "cloudflare = \<lparr>provider_name = ''1.1.1.1 (Cloudflare)'', provider_config = JNull\<rparr>"

definition google :: provider where
  "google = \<lparr>provider_name = ''8.8.8.8 (Google)'', provider_config = JNull\<rparr>"

definition timeout_error :: js_error where
  "timeout_error = \<lparr>err_name = ''Error'', message = ''upstream timed out'', code = None\<rparr>"

definition sample_dig :: dig_env where
  "sample_dig =
     \<lparr>VALID_TYPES = [''A'', ''AAAA'', ''MX'', ''TXT''],
      providers = [cloudflare, google],
      validateDomain = (\<lambda>rawDomain response.
         if rawDomain = [] then
           \<lparr>vd_domain = rawDomain,
            vd_error = Some (response (JObj [(''type'', JNum 4)]))\<rparr>
         else \<lparr>vd_domain = rawDomain, vd_error = None\<rparr>),
      handleDig = (\<lambda>opts.
         if opts_domain opts = ''down.example'' then Rejected timeout_error
         else Resolved [JStr (opts_domain opts)]),
      editDeferred = (\<lambda>interaction data.
         if token interaction = ''expired'' then Rejected timeout_error else Resolved ()),
      digProvider_component = (\<lambda>name. JObj [(''custom_id'', JStr ''dig-provider''),
                                               (''placeholder'', JStr name)]),
      digRefresh_component = JObj [(''custom_id'', JStr ''dig-refresh'')]\<rparr>"

definition throwing :: "js_error \<Rightarrow> handler" where
  "throwing err = (\<lambda>response interaction. throws [] err)"

definition sample_env :: env where
  "sample_env =
     \<lparr>verify = (\<lambda>request bodyText.
         map_of (req_headers request) ''X-Signature-Ed25519'' = Some ''signed''),
      JSON_parse = (\<lambda>bodyText. Inl \<lparr>err_name = ''SyntaxError'',
                                       message = ''Unexpected token '' @ take 1 bodyText,
                                       code = None\<rparr>),
      commands = [''1001'' \<mapsto> \<lparr>cmd_file = ''dig.js''\<rparr>,
                  ''1002'' \<mapsto> \<lparr>cmd_file = ''broken.js''\<rparr>],
      modules = [''./commands/dig.js'' \<mapsto> Exports (execute sample_dig),
                 ''./commands/broken.js'' \<mapsto> Exports (throwing timeout_error),
                 ''./components/dig-refresh.js'' \<mapsto> Exports (throwing timeout_error),
                 ''./components/dig-provider.js'' \<mapsto>
                    Exports (throwing (module_not_found ''./utils/providers.js''))],
      Privacy = ''Privacy notice'',
      Terms = ''Terms notice'',
      CLIENT_ID = ''0''\<rparr>"

text \<open>The same worker with a body text that parses to the interaction \<open>b\<close>.\<close>

definition syntax_error :: js_error where
  "syntax_error = \<lparr>err_name = ''SyntaxError'', message = ''Unexpected token'', code = None\<rparr>"

definition parsing :: "interaction \<Rightarrow> env" where
  "parsing b =
     sample_env\<lparr>JSON_parse :=
       (\<lambda>bodyText. if bodyText = ''raw body'' then Inr b else Inl syntax_error)\<rparr>"

definition signed_post :: request where
  "signed_post =
     \<lparr>req_method = ''POST'', req_pathname = ''/interactions'',
      req_headers = [(''X-Signature-Ed25519'', ''signed''), (''X-Signature-Timestamp'', ''0'')],
      req_text = ''raw body''\<rparr>"

definition unsigned_post :: request where
  "unsigned_post =
     \<lparr>req_method = ''POST'', req_pathname = ''/interactions'', req_headers = [],
      req_text = ''raw body''\<rparr>"

definition sample_interaction :: "int \<Rightarrow> string \<Rightarrow> string \<Rightarrow> option_entry list \<Rightarrow> interaction" where
  "sample_interaction t i c os =
     \<lparr>itype = t, token = ''token'',
      idata = \<lparr>data_id = i, data_name = ''dig'', custom_id = c, data_options = os\<rparr>\<rparr>"

section \<open>Routing of a verified interaction\<close>

lemma handleInteraction_verified:
  assumes "verify e request (req_text request)"
    and "JSON_parse e (req_text request) = Inr body"
  shows "handleInteraction e request =
     after [SetRequestBodyText (req_text request), VerifyCalled request (req_text request),
            JSONParse (req_text request), SetRequestBody body]
       (if itype body = InteractionType_Ping then
          returns [] (jsonResponse (JObj [(''type'', JNum InteractionResponseType_Pong)]))
        else if itype body = InteractionType_ApplicationCommand then
          handleCommandInteraction e body
        else if itype body = InteractionType_MessageComponent then
          handleComponentInteraction e body
        else returns [] (statusResponse 501))"
  using assms by (simp add: handleInteraction_def after_def Let_def)

lemma handleInteraction_command:
  assumes "verify e request (req_text request)"
    and "JSON_parse e (req_text request) = Inr body"
    and "itype body = InteractionType_ApplicationCommand"
  shows "handleInteraction e request =
     after [SetRequestBodyText (req_text request), VerifyCalled request (req_text request),
            JSONParse (req_text request), SetRequestBody body]
       (handleCommandInteraction e body)"
  using assms
  by (simp add: handleInteraction_verified InteractionType_Ping_def
      InteractionType_ApplicationCommand_def)

lemma handleInteraction_component:
  assumes "verify e request (req_text request)"
    and "JSON_parse e (req_text request) = Inr body"
    and "itype body = InteractionType_MessageComponent"
  shows "handleInteraction e request =
     after [SetRequestBodyText (req_text request), VerifyCalled request (req_text request),
            JSONParse (req_text request), SetRequestBody body]
       (handleComponentInteraction e body)"
  using assms
  by (simp add: handleInteraction_verified InteractionType_Ping_def
      InteractionType_ApplicationCommand_def InteractionType_MessageComponent_def)


lemma component_try_loaded:
  "modules e (component_path body) = Some (Exports h) \<Longrightarrow>
   component_try e body =
     after [Import (component_path body), Execute (component_path body)] (h jsonResponse body)"
  by (simp add: component_try_def import_module_def Let_def)

lemma command_try_loaded:
  "modules e (command_path c) = Some (Exports h) \<Longrightarrow>
   command_try e (Descriptor c) body =
     after [Import (command_path c), Execute (command_path c)] (h jsonResponse body)"
  by (simp add: command_try_def import_path_def import_module_def Let_def)

lemma commands_get_own: "commands e key = Some c \<Longrightarrow> commands_get e key = Some (Descriptor c)"
  by (simp add: commands_get_def)




section \<open>The signature gate\<close>

text \<open>
  Claim C1. Every POST to \<open>/interactions\<close> begins by handing the request's body text, as
  received, to \<open>verify\<close>: the first two events of the run are the note of that text for the
  error reporter and the call of \<open>verify\<close> on it, before \<open>JSON.parse\<close>. When \<open>verify\<close> does
  not return true, the run is exactly these two events and the building of the response:
  status 401, no body, and no parse, no registry lookup, no module load, no handler.
\<close>

theorem unverified_request_is_rejected:
  assumes "req_method request = ''POST''" and "req_pathname request = ''/interactions''"
  shows "take 2 (trace (fetch_listener e request)) =
           [SetRequestBodyText (req_text request), VerifyCalled request (req_text request)]
       \<and> (\<not> verify e request (req_text request) \<longrightarrow>
            fetch_listener e request =
              \<lparr>trace = [SetRequestBodyText (req_text request),
                        VerifyCalled request (req_text request),
                        ResponseCreated \<lparr>status = 401, headers = [], rbody = None\<rparr>],
               result = Inr \<lparr>status = 401, headers = [], rbody = None\<rparr>,
               background = []\<rparr>)"
  using assms
  by (auto simp add: fetch_listener_def handleRequest_def handleInteraction_def after_def
      returns_def throws_def statusResponse_def Let_def split: sum.splits)

text \<open>
  Claim C7. A verified interaction of type Ping is answered with status 200 and the JSON
  envelope of type Pong. The run holds no registry lookup, no module load and no handler,
  and it is the same whatever the command registry \<open>cs\<close> and the module table \<open>ms\<close> are,
  the empty ones included.
\<close>

theorem ping_is_pong:
  assumes "verify e request (req_text request)"
    and "JSON_parse e (req_text request) = Inr body"
    and "itype body = InteractionType_Ping"
  shows "handleInteraction (e\<lparr>commands := cs, modules := ms\<rparr>) request =
     \<lparr>trace = [SetRequestBodyText (req_text request), VerifyCalled request (req_text request),
               JSONParse (req_text request), SetRequestBody body,
               ResponseCreated \<lparr>status = 200, headers = [(''Content-Type'', ''application/json'')],
                 rbody = Some (JsonBody (JObj [(''type'', JNum 1)]))\<rparr>],
      result = Inr \<lparr>status = 200, headers = [(''Content-Type'', ''application/json'')],
                 rbody = Some (JsonBody (JObj [(''type'', JNum 1)]))\<rparr>,
      background = []\<rparr>"
  using assms
  by (simp add: handleInteraction_def after_def returns_def jsonResponse_def
      InteractionResponseType_Pong_def Let_def)

text \<open>
  Claim C8. A POST to \<open>/interactions\<close> whose signature verifies and whose body text
  \<open>JSON.parse\<close> rejects yields no response at all: the parse error leaves
  \<open>handleInteraction\<close>, the listener's \<open>catch\<close> reports it to the error reporter, and the
  same error is thrown on to the runtime.
\<close>

theorem invalid_json_propagates:
  assumes "req_method request = ''POST''" and "req_pathname request = ''/interactions''"
    and "verify e request (req_text request)"
    and "JSON_parse e (req_text request) = Inl err"
  shows "fetch_listener e request =
     \<lparr>trace = [SetRequestBodyText (req_text request), VerifyCalled request (req_text request),
               JSONParse (req_text request), CaptureException err],
      result = Inl err,
      background = []\<rparr>"
  using assms
  by (simp add: fetch_listener_def handleRequest_def handleInteraction_def after_def
      throws_def Let_def)

section \<open>Commands\<close>


text \<open>
  Claim C5. A verified Command interaction whose handler is found and whose \<open>execute\<close>
  throws \<open>err\<close>: the scope was tagged \<open>command\<close> with the command's name, \<open>err\<close> is reported
  after the handler's own events, and the response is the fixed apology, status 200, a
  chat message (type 4) with the ephemeral flag (64). The response is a constant: nothing
  of \<open>err\<close> is in it.
\<close>

theorem command_failure_is_apology:
  assumes "verify e request (req_text request)"
    and "JSON_parse e (req_text request) = Inr body"
    and "itype body = InteractionType_ApplicationCommand"
    and "commands e (data_id (idata body)) = Some c"
    and "modules e (command_path c) = Some (Exports h)"
    and "result (h jsonResponse body) = Inl err"
  shows "handleInteraction e request =
     \<lparr>trace = [SetRequestBodyText (req_text request), VerifyCalled request (req_text request),
               JSONParse (req_text request), SetRequestBody body,
               SetTransactionName (''command: '' @ data_name (idata body)),
               SetTag ''command'' (data_name (idata body)),
               CommandLookup (data_id (idata body)),
               Import (command_path c), Execute (command_path c)]
              @ trace (h jsonResponse body)
              @ [ConsoleLog body, CaptureException err, ResponseCreated apology],
      result = Inr apology,
      background = background (h jsonResponse body)\<rparr>
    \<and> apology =
      \<lparr>status = 200, headers = [(''Content-Type'', ''application/json'')],
       rbody = Some (JsonBody (JObj
         [(''type'', JNum 4),
          (''data'', JObj
            [(''content'', JStr ''An unexpected error occurred when executing the command.''),
             (''flags'', JNum 64)])]))\<rparr>"
  using assms(5,6)
  by (simp add: handleInteraction_command [OF assms(1-3)] handleCommandInteraction_def
      commands_get_own [OF assms(4)] command_try_loaded after_def apology_def jsonResponse_def
      InteractionResponseType_ChannelMessageWithSource_def MessageFlags_Ephemeral_def)

section \<open>Components\<close>


text \<open>
  Claim C9. For a verified Component interaction the status depends on the thrown error
  through its \<open>code\<close> alone: whatever the \<open>try\<close> block throws, from the load or from
  \<open>execute\<close>, the answer is 404 when the code is \<open>MODULE_NOT_FOUND\<close> and 500 otherwise. So
  an error with that code thrown by the \<open>execute\<close> of a module that did load is answered
  with 404, and the router adds no report to those of the handler.
\<close>

theorem component_classified_by_code:
  assumes "verify e request (req_text request)"
    and "JSON_parse e (req_text request) = Inr body"
    and "itype body = InteractionType_MessageComponent"
  shows "(\<forall>err. result (component_try e body) = Inl err \<longrightarrow>
            result (handleInteraction e request) =
              Inr \<lparr>status = (if code err = Some ''MODULE_NOT_FOUND'' then 404 else 500),
                   headers = [], rbody = None\<rparr>)
       \<and> (\<forall>h err. modules e (component_path body) = Some (Exports h)
             \<and> result (h jsonResponse body) = Inl err
             \<and> code err = Some ''MODULE_NOT_FOUND'' \<longrightarrow>
            result (handleInteraction e request) = Inr \<lparr>status = 404, headers = [], rbody = None\<rparr>
          \<and> filter is_capture (trace (handleInteraction e request)) =
              filter is_capture (trace (h jsonResponse body)))"
proof (intro conjI impI allI)
  fix err
  assume "result (component_try e body) = Inl err"
  then show "result (handleInteraction e request) =
              Inr \<lparr>status = (if code err = Some ''MODULE_NOT_FOUND'' then 404 else 500),
                   headers = [], rbody = None\<rparr>"
    by (simp add: handleInteraction_component [OF assms] handleComponentInteraction_def
        after_def statusResponse_def Let_def)
next
  fix h err
  assume a: "modules e (component_path body) = Some (Exports h)
             \<and> result (h jsonResponse body) = Inl err
             \<and> code err = Some ''MODULE_NOT_FOUND''"
  then have t: "component_try e body =
     after [Import (component_path body), Execute (component_path body)] (h jsonResponse body)"
    by (simp add: component_try_loaded)
  show "result (handleInteraction e request) = Inr \<lparr>status = 404, headers = [], rbody = None\<rparr>"
    using a
    by (simp add: handleInteraction_component [OF assms] handleComponentInteraction_def t
        after_def statusResponse_def)
  show "filter is_capture (trace (handleInteraction e request)) =
              filter is_capture (trace (h jsonResponse body))"
    using a
    by (simp add: handleInteraction_component [OF assms] handleComponentInteraction_def t
        after_def statusResponse_def)
qed

section \<open>The deferred response of the dig command\<close>

lemma dig_work_started: "fst (dig_work d i opts) = [HandleDig opts]"
  by (simp add: dig_work_def Let_def split: promise.splits option.splits)

lemma dig_task_started: "started (dig_task d i opts) = [HandleDig opts]"
  using dig_work_started [of d i opts]
  by (cases "dig_work d i opts") (auto simp add: dig_task_def split: promise.splits)

lemma execute_valid:
  assumes "raw_values (data_options (idata i)) = Inr rv"
    and "vd_error (validateDomain d (rawDomain rv) response) = None"
  shows "execute d response i =
     \<lparr>trace = [HandleDig (dig_options d (vd_domain (validateDomain d (rawDomain rv) response))
                   (rawType rv) (rawShort rv) (rawCdflag rv) (rawProvider rv)),
               WaitUntil, ResponseCreated (response deferred_ack)],
      result = Inr (response deferred_ack),
      background = [dig_task d i (dig_options d (vd_domain (validateDomain d (rawDomain rv) response))
                   (rawType rv) (rawShort rv) (rawCdflag rv) (rawProvider rv))]\<rparr>"
  using assms by (simp add: execute_def Let_def dig_task_started)

lemma dig_work_resumed:
  "dig_work d i opts = (s, r, p) \<Longrightarrow>
   s = [HandleDig opts] \<and> (r = [] \<or> (\<exists>emb q. r = [EditDeferred i (dig_reply d emb q)]))"
  by (auto simp add: dig_work_def Let_def split: promise.splits option.splits)

lemma dig_reply_not_failure: "dig_reply d emb q \<noteq> failure_message"
  by (simp add: dig_reply_def failure_message_def)

lemma raw_values_Inr:
  "raw_values options = Inr rv \<Longrightarrow>
   raw_string options ''domain'' = Inr (rawDomain rv)
   \<and> raw_string options ''type'' = Inr (rawType rv)
   \<and> raw_string options ''provider'' = Inr (rawProvider rv)"
  by (auto simp add: raw_values_def split: sum.splits)

lemma raw_string_missing:
  "find (\<lambda>opt. opt_name opt = n) options = None \<Longrightarrow> raw_string options n = Inr []"
  by (simp add: raw_string_def option_value_def or_else_def trim_def)

lemma raw_string_JStr:
  "option_value options n = JStr s \<Longrightarrow> raw_string options n = Inr (trim s)"
  by (simp add: raw_string_def or_else_def trim_def)

lemma choose_provider_fallback:
  "\<forall>p \<in> set (p0 # ps). provider_name p \<noteq> n \<Longrightarrow> choose_provider (p0 # ps) n = Some p0"
proof -
  assume a: "\<forall>p \<in> set (p0 # ps). provider_name p \<noteq> n"
  then have "find (\<lambda>p. provider_name p = n) (p0 # ps) = None"
    unfolding find_None_iff by blast
  then show ?thesis
    unfolding choose_provider_def by simp
qed

text \<open>
  Claim C3. An invocation of the dig command that passes validation (the raw values are
  read, and \<open>validateDomain\<close> returns no error) returns the responder's envelope of the
  deferred type (5). Its own events are the start of the lookup, the call of \<open>wait\<close> and the
  building of that response; none of them is an edit. Every edit of the interaction's
  response lies in the resumed part of the background task, after the response has been
  built, however \<open>handleDig\<close> and \<open>editDeferred\<close> end.
\<close>

theorem deferred_ack_precedes_edit:
  assumes "raw_values (data_options (idata i)) = Inr rv"
    and "vd_error (validateDomain d (rawDomain rv) response) = None"
  shows "result (execute d response i) = Inr (response (JObj [(''type'', JNum 5)]))
       \<and> last (trace (execute d response i)) =
           ResponseCreated (response (JObj [(''type'', JNum 5)]))
       \<and> filter is_edit (trace (execute d response i)) = []
       \<and> (\<exists>opts. background (execute d response i) = [dig_task d i opts]
            \<and> timeline (execute d response i) =
                 [HandleDig opts, WaitUntil,
                  ResponseCreated (response (JObj [(''type'', JNum 5)]))]
                 @ resumed (dig_task d i opts))
       \<and> filter is_edit
           (takeWhile (\<lambda>ev. ev \<noteq> ResponseCreated (response (JObj [(''type'', JNum 5)])))
              (timeline (execute d response i))) = []"
  by (simp add: execute_valid [OF assms] timeline_def deferred_ack_def
      InteractionResponseType_DeferredChannelMessageWithSource_def)

text \<open>
  Claim C4. When the work of the background task throws \<open>err\<close> (the lookup rejects, the
  reply cannot be built, or the edit of the reply rejects), the task reports \<open>err\<close> to the
  error reporter once, attempts one edit with the fixed failure message, leaves that
  edit's promise behind with its rejection handled (it never ends rejected), and the
  promise given to \<open>wait\<close> is rejected with \<open>err\<close> itself.
\<close>

theorem failed_task_falls_back_and_rethrows:
  assumes "dig_work d i opts = (s, r, Rejected err)"
  shows "dig_task d i opts =
           \<lparr>started = s,
            resumed = r @ [CaptureException err, EditDeferred i failure_message],
            settles = Rejected err,
            floating = [swallow (editDeferred d i failure_message)]\<rparr>
       \<and> filter (\<lambda>ev. ev = EditDeferred i failure_message) (resumed (dig_task d i opts)) =
           [EditDeferred i failure_message]
       \<and> filter is_capture (resumed (dig_task d i opts)) = [CaptureException err]
       \<and> (\<forall>e'. swallow (editDeferred d i failure_message) \<noteq> Rejected e')
       \<and> failure_message =
           JObj [(''content'', JStr ''Sorry, something went wrong when processing your DNS query'')]"
proof -
  have t: "dig_task d i opts =
           \<lparr>started = s,
            resumed = r @ [CaptureException err, EditDeferred i failure_message],
            settles = Rejected err,
            floating = [swallow (editDeferred d i failure_message)]\<rparr>"
    using assms by (simp add: dig_task_def)
  have r: "r = [] \<or> (\<exists>emb q. r = [EditDeferred i (dig_reply d emb q)])"
    using dig_work_resumed [OF assms] by simp
  have sw: "\<forall>e'. swallow (editDeferred d i failure_message) \<noteq> Rejected e'"
    by (cases "editDeferred d i failure_message") simp_all
  from r have f1: "filter (\<lambda>ev. ev = EditDeferred i failure_message) r = []"
    by (auto simp add: dig_reply_not_failure)
  from r have f2: "filter is_capture r = []"
    by auto
  show ?thesis
    using f1 f2 sw by (simp add: t failure_message_def)
qed

lemma raw_string_trimmable:
  "trimmable (option_value options n) \<Longrightarrow>
   raw_string options n =
     Inr (case option_value options n of JStr s \<Rightarrow> trim s | _ \<Rightarrow> [])"
  by (cases "option_value options n") (simp_all add: raw_string_def or_else_def trim_def)

lemma raw_string_falsy:
  "\<not> truthy (option_value options n) \<Longrightarrow> raw_string options n = Inr []"
  by (simp add: raw_string_def or_else_def trim_def)

text \<open>
  Claim C10, as amended. For an invocation of the dig command with a valid domain (the
  domain is read and \<open>validateDomain\<close> returns no error) whose \<open>type\<close> and \<open>provider\<close> option
  values are strings or falsy, a missing option included, and a provider table that is
  not empty (the module reads \<open>providers[0].name\<close> when it loads): the result is the
  deferred acknowledgement, never an error response, and the lookup is started with type
  \<open>A\<close> when the trimmed \<open>type\<close> value is not in \<open>VALID_TYPES\<close>, and with the first provider
  of the table when no provider has the trimmed \<open>provider\<close> value as its name. A missing or
  falsy value reads as the empty string, which is unrecognized when the table does not
  hold it.
\<close>

theorem dig_options_fall_back:
  assumes "raw_string (data_options (idata i)) ''domain'' = Inr rd"
    and "vd_error (validateDomain d rd response) = None"
    and "trimmable (option_value (data_options (idata i)) ''type'')"
    and "trimmable (option_value (data_options (idata i)) ''provider'')"
    and "providers d = p0 # ps"
  shows "\<exists>opts rt rp.
         raw_string (data_options (idata i)) ''type'' = Inr rt
       \<and> raw_string (data_options (idata i)) ''provider'' = Inr rp
       \<and> execute d response i =
            \<lparr>trace = [HandleDig opts, WaitUntil, ResponseCreated (response deferred_ack)],
             result = Inr (response deferred_ack),
             background = [dig_task d i opts]\<rparr>
       \<and> (rt \<notin> set (VALID_TYPES d) \<longrightarrow> opts_types opts = [''A''])
       \<and> (find (\<lambda>opt. opt_name opt = ''type'') (data_options (idata i)) = None
            \<and> [] \<notin> set (VALID_TYPES d) \<longrightarrow> opts_types opts = [''A''])
       \<and> ((\<forall>p \<in> set (providers d). provider_name p \<noteq> rp) \<longrightarrow>
             opts_provider opts = Some p0)
       \<and> (find (\<lambda>opt. opt_name opt = ''provider'') (data_options (idata i)) = None
            \<and> (\<forall>p \<in> set (providers d). provider_name p \<noteq> []) \<longrightarrow>
             opts_provider opts = Some p0)
       \<and> (\<forall>s. option_value (data_options (idata i)) ''type'' = JStr s \<longrightarrow> rt = trim s)
       \<and> (\<forall>s. option_value (data_options (idata i)) ''provider'' = JStr s \<longrightarrow> rp = trim s)
       \<and> (\<not> truthy (option_value (data_options (idata i)) ''type'') \<longrightarrow> rt = [])
       \<and> (\<not> truthy (option_value (data_options (idata i)) ''provider'') \<longrightarrow> rp = [])"
proof -
  let ?os = "data_options (idata i)"
  let ?rt = "case option_value ?os ''type'' of JStr s \<Rightarrow> trim s | _ \<Rightarrow> []"
  let ?rp = "case option_value ?os ''provider'' of JStr s \<Rightarrow> trim s | _ \<Rightarrow> []"
  let ?rv = "\<lparr>rawDomain = rd, rawType = ?rt, rawShort = raw_flag ?os ''short'',
              rawCdflag = raw_flag ?os ''cdflag'', rawProvider = ?rp\<rparr>"
  let ?opts = "dig_options d (vd_domain (validateDomain d rd response))
                 ?rt (raw_flag ?os ''short'') (raw_flag ?os ''cdflag'') ?rp"
  have rt: "raw_string ?os ''type'' = Inr ?rt"
    by (rule raw_string_trimmable [OF assms(3)])
  have rp: "raw_string ?os ''provider'' = Inr ?rp"
    by (rule raw_string_trimmable [OF assms(4)])
  have rv: "raw_values ?os = Inr ?rv"
    by (simp add: raw_values_def assms(1) rt rp)
  have v: "vd_error (validateDomain d (rawDomain ?rv) response) = None"
    by (simp add: assms(2))
  have ex: "execute d response i =
            \<lparr>trace = [HandleDig ?opts, WaitUntil, ResponseCreated (response deferred_ack)],
             result = Inr (response deferred_ack),
             background = [dig_task d i ?opts]\<rparr>"
    using execute_valid [OF rv v] by simp
  have ty: "?rt \<notin> set (VALID_TYPES d) \<longrightarrow> opts_types ?opts = [''A'']"
    by (simp add: dig_options_def)
  have pr: "(\<forall>p \<in> set (providers d). provider_name p \<noteq> ?rp) \<longrightarrow>
             opts_provider ?opts = Some p0"
    using choose_provider_fallback [of p0 ps ?rp]
    by (simp add: dig_options_def assms(5))
  have m1: "find (\<lambda>opt. opt_name opt = ''type'') ?os = None \<longrightarrow> ?rt = []"
    using rt raw_string_missing [of "''type''" ?os] by simp
  have m2: "find (\<lambda>opt. opt_name opt = ''provider'') ?os = None \<longrightarrow> ?rp = []"
    using rp raw_string_missing [of "''provider''" ?os] by simp
  have ty2: "find (\<lambda>opt. opt_name opt = ''type'') ?os = None
            \<and> [] \<notin> set (VALID_TYPES d) \<longrightarrow> opts_types ?opts = [''A'']"
    using m1 ty by metis
  have pr2: "find (\<lambda>opt. opt_name opt = ''provider'') ?os = None
            \<and> (\<forall>p \<in> set (providers d). provider_name p \<noteq> []) \<longrightarrow>
             opts_provider ?opts = Some p0"
    using m2 pr by metis
  have s1: "\<forall>s. option_value ?os ''type'' = JStr s \<longrightarrow> ?rt = trim s"
    by simp
  have s2: "\<forall>s. option_value ?os ''provider'' = JStr s \<longrightarrow> ?rp = trim s"
    by simp
  have f1: "\<not> truthy (option_value ?os ''type'') \<longrightarrow> ?rt = []"
    using rt raw_string_falsy [of ?os "''type''"] by simp
  have f2: "\<not> truthy (option_value ?os ''provider'') \<longrightarrow> ?rp = []"
    using rp raw_string_falsy [of ?os "''provider''"] by simp
  show ?thesis
    apply (rule exI [of _ ?opts])
    apply (rule exI [of _ ?rt])
    apply (rule exI [of _ ?rp])
    apply (intro conjI)
              apply (rule rt)
             apply (rule rp)
            apply (rule ex)
           apply (rule ty)
          apply (rule ty2)
         apply (rule pr)
        apply (rule pr2)
       apply (rule s1)
      apply (rule s2)
     apply (rule f1)
    apply (rule f2)
    done
qed

section \<open>The theorems on the concrete worker\<close>

lemma signed_post_simps:
  "req_method signed_post = ''POST''"
  "req_pathname signed_post = ''/interactions''"
  "req_text signed_post = ''raw body''"
  by (simp_all add: signed_post_def)

lemma verify_signed: "verify (parsing b) signed_post (req_text signed_post)"
  by (simp add: parsing_def sample_env_def signed_post_def)

lemma parse_signed: "JSON_parse (parsing b) (req_text signed_post) = Inr b"
  by (simp add: parsing_def signed_post_def)

lemma sample_interaction_simps:
  "itype (sample_interaction t i c os) = t"
  "data_id (idata (sample_interaction t i c os)) = i"
  "data_name (idata (sample_interaction t i c os)) = ''dig''"
  "custom_id (idata (sample_interaction t i c os)) = c"
  "data_options (idata (sample_interaction t i c os)) = os"
  by (simp_all add: sample_interaction_def)

theorem unverified_request_is_rejected_witness:
  "req_method unsigned_post = ''POST'' \<and> req_pathname unsigned_post = ''/interactions''
   \<and> \<not> verify sample_env unsigned_post (req_text unsigned_post)
   \<and> fetch_listener sample_env unsigned_post =
       \<lparr>trace = [SetRequestBodyText ''raw body'', VerifyCalled unsigned_post ''raw body'',
                 ResponseCreated \<lparr>status = 401, headers = [], rbody = None\<rparr>],
        result = Inr \<lparr>status = 401, headers = [], rbody = None\<rparr>,
        background = []\<rparr>"
proof -
  have m: "req_method unsigned_post = ''POST''" by (simp add: unsigned_post_def)
  have p: "req_pathname unsigned_post = ''/interactions''" by (simp add: unsigned_post_def)
  have t: "req_text unsigned_post = ''raw body''" by (simp add: unsigned_post_def)
  have v: "\<not> verify sample_env unsigned_post (req_text unsigned_post)"
    by (simp add: sample_env_def unsigned_post_def)
  from unverified_request_is_rejected [OF m p, of sample_env] v
  have "fetch_listener sample_env unsigned_post =
       \<lparr>trace = [SetRequestBodyText (req_text unsigned_post),
                 VerifyCalled unsigned_post (req_text unsigned_post),
                 ResponseCreated \<lparr>status = 401, headers = [], rbody = None\<rparr>],
        result = Inr \<lparr>status = 401, headers = [], rbody = None\<rparr>,
        background = []\<rparr>"
    by blast
  with m p v t show ?thesis by simp
qed

theorem ping_is_pong_witness:
  "verify (parsing (sample_interaction 1 [] [] [])) signed_post (req_text signed_post)
   \<and> JSON_parse (parsing (sample_interaction 1 [] [] [])) (req_text signed_post) =
        Inr (sample_interaction 1 [] [] [])
   \<and> itype (sample_interaction 1 [] [] []) = InteractionType_Ping
   \<and> result (handleInteraction
        ((parsing (sample_interaction 1 [] [] []))\<lparr>commands := Map.empty, modules := Map.empty\<rparr>)
        signed_post) =
       Inr \<lparr>status = 200, headers = [(''Content-Type'', ''application/json'')],
            rbody = Some (JsonBody (JObj [(''type'', JNum 1)]))\<rparr>"
proof -
  let ?b = "sample_interaction 1 [] [] []"
  have t: "itype ?b = InteractionType_Ping"
    by (simp add: sample_interaction_simps InteractionType_Ping_def)
  from ping_is_pong [OF verify_signed parse_signed t, of Map.empty Map.empty]
  show ?thesis
    using verify_signed [of ?b] parse_signed [of ?b] t by simp
qed

theorem invalid_json_propagates_witness:
  "req_method signed_post = ''POST'' \<and> req_pathname signed_post = ''/interactions''
   \<and> verify sample_env signed_post (req_text signed_post)
   \<and> JSON_parse sample_env (req_text signed_post) =
        Inl \<lparr>err_name = ''SyntaxError'', message = ''Unexpected token r'', code = None\<rparr>
   \<and> fetch_listener sample_env signed_post =
       \<lparr>trace = [SetRequestBodyText ''raw body'', VerifyCalled signed_post ''raw body'',
                 JSONParse ''raw body'',
                 CaptureException
                   \<lparr>err_name = ''SyntaxError'', message = ''Unexpected token r'', code = None\<rparr>],
        result = Inl \<lparr>err_name = ''SyntaxError'', message = ''Unexpected token r'', code = None\<rparr>,
        background = []\<rparr>"
proof -
  have v: "verify sample_env signed_post (req_text signed_post)"
    by (simp add: sample_env_def signed_post_def)
  have j: "JSON_parse sample_env (req_text signed_post) =
        Inl \<lparr>err_name = ''SyntaxError'', message = ''Unexpected token r'', code = None\<rparr>"
    by (simp add: sample_env_def signed_post_def)
  from invalid_json_propagates [OF signed_post_simps(1,2) v j]
  show ?thesis
    using v j by (simp add: signed_post_simps)
qed



theorem command_failure_is_apology_witness:
  "verify (parsing (sample_interaction 2 ''1002'' [] [])) signed_post (req_text signed_post)
   \<and> JSON_parse (parsing (sample_interaction 2 ''1002'' [] [])) (req_text signed_post) =
        Inr (sample_interaction 2 ''1002'' [] [])
   \<and> itype (sample_interaction 2 ''1002'' [] []) = InteractionType_ApplicationCommand
   \<and> commands (parsing (sample_interaction 2 ''1002'' [] []))
        (data_id (idata (sample_interaction 2 ''1002'' [] []))) = Some \<lparr>cmd_file = ''broken.js''\<rparr>
   \<and> modules (parsing (sample_interaction 2 ''1002'' [] []))
        (command_path \<lparr>cmd_file = ''broken.js''\<rparr>) = Some (Exports (throwing timeout_error))
   \<and> result (throwing timeout_error jsonResponse (sample_interaction 2 ''1002'' [] [])) =
        Inl timeout_error
   \<and> handleInteraction (parsing (sample_interaction 2 ''1002'' [] [])) signed_post =
       \<lparr>trace = [SetRequestBodyText ''raw body'', VerifyCalled signed_post ''raw body'',
                 JSONParse ''raw body'', SetRequestBody (sample_interaction 2 ''1002'' [] []),
                 SetTransactionName ''command: dig'', SetTag ''command'' ''dig'',
                 CommandLookup ''1002'',
                 Import ''./commands/broken.js'', Execute ''./commands/broken.js'',
                 ConsoleLog (sample_interaction 2 ''1002'' [] []),
                 CaptureException timeout_error, ResponseCreated apology],
        result = Inr apology,
        background = []\<rparr>"
proof -
  let ?b = "sample_interaction 2 ''1002'' [] []"
  have t: "itype ?b = InteractionType_ApplicationCommand"
    by (simp add: sample_interaction_simps InteractionType_ApplicationCommand_def)
  have c: "commands (parsing ?b) (data_id (idata ?b)) = Some \<lparr>cmd_file = ''broken.js''\<rparr>"
    by (simp add: sample_interaction_simps parsing_def sample_env_def)
  have p: "command_path \<lparr>cmd_file = ''broken.js''\<rparr> = ''./commands/broken.js''"
    by (simp add: command_path_def)
  have m: "modules (parsing ?b) (command_path \<lparr>cmd_file = ''broken.js''\<rparr>) =
             Some (Exports (throwing timeout_error))"
    by (simp add: p parsing_def sample_env_def)
  have r: "throwing timeout_error jsonResponse ?b = throws [] timeout_error"
    by (simp add: throwing_def)
  have r': "result (throwing timeout_error jsonResponse ?b) = Inl timeout_error"
    by (simp add: r throws_def)
  from command_failure_is_apology [OF verify_signed parse_signed t c m r']
  show ?thesis
    using verify_signed [of ?b] parse_signed [of ?b] t c m r'
    by (simp add: signed_post_simps sample_interaction_simps p r throws_def)
qed


lemma sample_component_paths:
  "component_path (sample_interaction t i ''stale'' os) = ''./components/stale.js''"
  "component_path (sample_interaction t i ''dig-refresh'' os) = ''./components/dig-refresh.js''"
  "component_path (sample_interaction t i ''dig-provider'' os) = ''./components/dig-provider.js''"
  by (simp_all add: component_path_def sample_interaction_simps)


theorem component_classified_by_code_witness:
  "verify (parsing (sample_interaction 3 [] ''dig-provider'' [])) signed_post (req_text signed_post)
   \<and> JSON_parse (parsing (sample_interaction 3 [] ''dig-provider'' [])) (req_text signed_post) =
        Inr (sample_interaction 3 [] ''dig-provider'' [])
   \<and> itype (sample_interaction 3 [] ''dig-provider'' []) = InteractionType_MessageComponent
   \<and> modules (parsing (sample_interaction 3 [] ''dig-provider'' []))
        (component_path (sample_interaction 3 [] ''dig-provider'' [])) =
        Some (Exports (throwing (module_not_found ''./utils/providers.js'')))
   \<and> result (throwing (module_not_found ''./utils/providers.js'') jsonResponse
        (sample_interaction 3 [] ''dig-provider'' [])) =
        Inl (module_not_found ''./utils/providers.js'')
   \<and> code (module_not_found ''./utils/providers.js'') = Some ''MODULE_NOT_FOUND''
   \<and> result (handleInteraction (parsing (sample_interaction 3 [] ''dig-provider'' [])) signed_post) =
        Inr \<lparr>status = 404, headers = [], rbody = None\<rparr>
   \<and> filter is_capture
        (trace (handleInteraction (parsing (sample_interaction 3 [] ''dig-provider'' [])) signed_post)) = []"
proof -
  let ?b = "sample_interaction 3 [] ''dig-provider'' []"
  let ?err = "module_not_found ''./utils/providers.js''"
  have tb: "itype ?b = InteractionType_MessageComponent"
    by (simp add: sample_interaction_simps InteractionType_MessageComponent_def)
  have mb: "modules (parsing ?b) (component_path ?b) = Some (Exports (throwing ?err))"
    by (simp add: sample_component_paths parsing_def sample_env_def)
  have rb: "result (throwing ?err jsonResponse ?b) = Inl ?err"
    by (simp add: throwing_def throws_def)
  have trb: "trace (throwing ?err jsonResponse ?b) = []"
    by (simp add: throwing_def throws_def)
  have cb: "code ?err = Some ''MODULE_NOT_FOUND''"
    by (simp add: module_not_found_def)
  note B = component_classified_by_code [OF verify_signed parse_signed tb]
  from B mb rb cb have b404:
    "result (handleInteraction (parsing ?b) signed_post) = Inr \<lparr>status = 404, headers = [], rbody = None\<rparr>
     \<and> filter is_capture (trace (handleInteraction (parsing ?b) signed_post)) =
        filter is_capture (trace (throwing ?err jsonResponse ?b))"
    by blast
  show ?thesis
    using verify_signed [of ?b] parse_signed [of ?b] tb mb rb cb b404
    by (simp add: trb)
qed


lemma trim_example: "trim '' example.com '' = ''example.com''"
  by (simp add: trim_def is_space_def)

lemma sample_raw_values:
  "raw_values [\<lparr>opt_name = ''domain'', opt_value = JStr '' example.com ''\<rparr>] =
     Inr \<lparr>rawDomain = ''example.com'', rawType = [], rawShort = JBool False,
          rawCdflag = JBool False, rawProvider = []\<rparr>"
  by (simp add: raw_values_def raw_string_def raw_flag_def option_value_def or_else_def
      trim_example) (simp add: trim_def)

lemma sample_validate:
  "vd_error (validateDomain sample_dig ''example.com'' jsonResponse) = None"
  "vd_domain (validateDomain sample_dig ''example.com'' jsonResponse) = ''example.com''"
  by (simp_all add: sample_dig_def)

theorem deferred_ack_precedes_edit_witness:
  "raw_values (data_options (idata (sample_interaction 2 ''1001'' []
      [\<lparr>opt_name = ''domain'', opt_value = JStr '' example.com ''\<rparr>]))) =
     Inr \<lparr>rawDomain = ''example.com'', rawType = [], rawShort = JBool False,
          rawCdflag = JBool False, rawProvider = []\<rparr>
   \<and> vd_error (validateDomain sample_dig ''example.com'' jsonResponse) = None
   \<and> result (execute sample_dig jsonResponse (sample_interaction 2 ''1001'' []
        [\<lparr>opt_name = ''domain'', opt_value = JStr '' example.com ''\<rparr>])) =
       Inr (jsonResponse (JObj [(''type'', JNum 5)]))
   \<and> timeline (execute sample_dig jsonResponse (sample_interaction 2 ''1001'' []
        [\<lparr>opt_name = ''domain'', opt_value = JStr '' example.com ''\<rparr>])) =
       [HandleDig \<lparr>opts_domain = ''example.com'', opts_types = [''A''], opts_short = JBool False,
                   opts_cdflag = JBool False, opts_provider = Some cloudflare\<rparr>,
        WaitUntil,
        ResponseCreated (jsonResponse (JObj [(''type'', JNum 5)])),
        EditDeferred (sample_interaction 2 ''1001'' []
            [\<lparr>opt_name = ''domain'', opt_value = JStr '' example.com ''\<rparr>])
          (dig_reply sample_dig (JStr ''example.com'') cloudflare)]"
proof -
  let ?i = "sample_interaction 2 ''1001'' []
      [\<lparr>opt_name = ''domain'', opt_value = JStr '' example.com ''\<rparr>]"
  let ?rv = "\<lparr>rawDomain = ''example.com'', rawType = [], rawShort = JBool False,
          rawCdflag = JBool False, rawProvider = []\<rparr>"
  let ?opts = "\<lparr>opts_domain = ''example.com'', opts_types = [''A''], opts_short = JBool False,
                   opts_cdflag = JBool False, opts_provider = Some cloudflare\<rparr>"
  have r: "raw_values (data_options (idata ?i)) = Inr ?rv"
    by (simp add: sample_interaction_simps sample_raw_values)
  have v: "vd_error (validateDomain sample_dig (rawDomain ?rv) jsonResponse) = None"
    by (simp add: sample_validate)
  have o: "dig_options sample_dig ''example.com'' [] (JBool False) (JBool False) [] = ?opts"
    by (simp add: dig_options_def choose_provider_def sample_dig_def cloudflare_def google_def)
  have h: "handleDig sample_dig ?opts = Resolved [JStr ''example.com'']"
    by (simp add: sample_dig_def)
  have e: "editDeferred sample_dig ?i x = Resolved ()" for x
    by (simp add: sample_dig_def sample_interaction_def)
  have t: "dig_task sample_dig ?i ?opts =
     \<lparr>started = [HandleDig ?opts],
      resumed = [EditDeferred ?i (dig_reply sample_dig (JStr ''example.com'') cloudflare)],
      settles = Resolved (), floating = []\<rparr>"
    by (simp add: dig_task_def dig_work_def h e)
  have tl: "timeline (execute sample_dig jsonResponse ?i) =
       [HandleDig ?opts, WaitUntil, ResponseCreated (jsonResponse deferred_ack),
        EditDeferred ?i (dig_reply sample_dig (JStr ''example.com'') cloudflare)]"
    using execute_valid [OF r v] by (simp add: timeline_def sample_validate o t)
  from deferred_ack_precedes_edit [OF r v]
  have "result (execute sample_dig jsonResponse ?i) = Inr (jsonResponse (JObj [(''type'', JNum 5)]))"
    by blast
  then show ?thesis
    using r v tl
    by (simp add: deferred_ack_def InteractionResponseType_DeferredChannelMessageWithSource_def)
qed

theorem failed_task_falls_back_and_rethrows_witness:
  "dig_work sample_dig ((sample_interaction 2 ''1001'' [] [])\<lparr>token := ''expired''\<rparr>)
      \<lparr>opts_domain = ''example.com'', opts_types = [''A''], opts_short = JBool False,
       opts_cdflag = JBool False, opts_provider = Some cloudflare\<rparr> =
     ([HandleDig \<lparr>opts_domain = ''example.com'', opts_types = [''A''], opts_short = JBool False,
                  opts_cdflag = JBool False, opts_provider = Some cloudflare\<rparr>],
      [EditDeferred ((sample_interaction 2 ''1001'' [] [])\<lparr>token := ''expired''\<rparr>)
         (dig_reply sample_dig (JStr ''example.com'') cloudflare)],
      Rejected timeout_error)
   \<and> dig_task sample_dig ((sample_interaction 2 ''1001'' [] [])\<lparr>token := ''expired''\<rparr>)
      \<lparr>opts_domain = ''example.com'', opts_types = [''A''], opts_short = JBool False,
       opts_cdflag = JBool False, opts_provider = Some cloudflare\<rparr> =
     \<lparr>started =
        [HandleDig \<lparr>opts_domain = ''example.com'', opts_types = [''A''], opts_short = JBool False,
                    opts_cdflag = JBool False, opts_provider = Some cloudflare\<rparr>],
      resumed =
        [EditDeferred ((sample_interaction 2 ''1001'' [] [])\<lparr>token := ''expired''\<rparr>)
           (dig_reply sample_dig (JStr ''example.com'') cloudflare),
         CaptureException timeout_error,
         EditDeferred ((sample_interaction 2 ''1001'' [] [])\<lparr>token := ''expired''\<rparr>)
           failure_message],
      settles = Rejected timeout_error,
      floating = [Resolved ()]\<rparr>"
proof -
  let ?i = "(sample_interaction 2 ''1001'' [] [])\<lparr>token := ''expired''\<rparr>"
  let ?opts = "\<lparr>opts_domain = ''example.com'', opts_types = [''A''], opts_short = JBool False,
       opts_cdflag = JBool False, opts_provider = Some cloudflare\<rparr>"
  have e: "editDeferred sample_dig ?i x = Rejected timeout_error" for x
    by (simp add: sample_dig_def)
  have h: "handleDig sample_dig ?opts = Resolved [JStr ''example.com'']"
    by (simp add: sample_dig_def)
  have w: "dig_work sample_dig ?i ?opts =
     ([HandleDig ?opts],
      [EditDeferred ?i (dig_reply sample_dig (JStr ''example.com'') cloudflare)],
      Rejected timeout_error)"
    by (simp add: dig_work_def h e)
  from failed_task_falls_back_and_rethrows [OF w]
  show ?thesis
    using w by (simp add: e)
qed

lemma trim_no_break_space: "trim [CHR 0xA0, CHR ''M'', CHR ''X'', CHR 0x20] = ''MX''"
  by (simp add: trim_def is_space_def)

lemma sample_options:
  "raw_string [\<lparr>opt_name = ''domain'', opt_value = JStr '' example.com ''\<rparr>,
               \<lparr>opt_name = ''type'', opt_value = v\<rparr>,
               \<lparr>opt_name = ''provider'', opt_value = w\<rparr>] ''domain'' = Inr ''example.com''"
  "option_value [\<lparr>opt_name = ''domain'', opt_value = JStr '' example.com ''\<rparr>,
                 \<lparr>opt_name = ''type'', opt_value = v\<rparr>,
                 \<lparr>opt_name = ''provider'', opt_value = w\<rparr>] ''type'' = v"
  "option_value [\<lparr>opt_name = ''domain'', opt_value = JStr '' example.com ''\<rparr>,
                 \<lparr>opt_name = ''type'', opt_value = v\<rparr>,
                 \<lparr>opt_name = ''provider'', opt_value = w\<rparr>] ''provider'' = w"
  by (simp_all add: raw_string_def option_value_def or_else_def trim_example)

lemma trim_words: "trim ''BOGUS'' = ''BOGUS''" "trim ''nobody'' = ''nobody''"
  by (simp_all add: trim_def is_space_def)

theorem dig_options_fall_back_witness:
  "raw_string (data_options (idata (sample_interaction 2 ''1001'' []
      [\<lparr>opt_name = ''domain'', opt_value = JStr '' example.com ''\<rparr>,
       \<lparr>opt_name = ''type'', opt_value = JStr ''BOGUS''\<rparr>,
       \<lparr>opt_name = ''provider'', opt_value = JStr ''nobody''\<rparr>]))) ''domain'' =
     Inr ''example.com''
   \<and> vd_error (validateDomain sample_dig ''example.com'' jsonResponse) = None
   \<and> trimmable (JStr ''BOGUS'') \<and> trimmable (JStr ''nobody'')
   \<and> providers sample_dig = cloudflare # [google]
   \<and> ''BOGUS'' \<notin> set (VALID_TYPES sample_dig)
   \<and> list_all (\<lambda>p. provider_name p \<noteq> ''nobody'') (providers sample_dig)
   \<and> trace (execute sample_dig jsonResponse (sample_interaction 2 ''1001'' []
        [\<lparr>opt_name = ''domain'', opt_value = JStr '' example.com ''\<rparr>,
         \<lparr>opt_name = ''type'', opt_value = JStr ''BOGUS''\<rparr>,
         \<lparr>opt_name = ''provider'', opt_value = JStr ''nobody''\<rparr>])) =
       [HandleDig \<lparr>opts_domain = ''example.com'', opts_types = [''A''], opts_short = JBool False,
                   opts_cdflag = JBool False, opts_provider = Some cloudflare\<rparr>,
        WaitUntil, ResponseCreated (jsonResponse deferred_ack)]
   \<and> result (execute sample_dig jsonResponse (sample_interaction 2 ''1001'' []
        [\<lparr>opt_name = ''domain'', opt_value = JStr '' example.com ''\<rparr>,
         \<lparr>opt_name = ''type'', opt_value = JStr ''BOGUS''\<rparr>,
         \<lparr>opt_name = ''provider'', opt_value = JStr ''nobody''\<rparr>])) =
       Inr (jsonResponse deferred_ack)"
proof -
  let ?os = "[\<lparr>opt_name = ''domain'', opt_value = JStr '' example.com ''\<rparr>,
       \<lparr>opt_name = ''type'', opt_value = JStr ''BOGUS''\<rparr>,
       \<lparr>opt_name = ''provider'', opt_value = JStr ''nobody''\<rparr>]"
  let ?i = "sample_interaction 2 ''1001'' [] ?os"
  have os: "data_options (idata ?i) = ?os"
    by (simp add: sample_interaction_simps)
  have r: "raw_string (data_options (idata ?i)) ''domain'' = Inr ''example.com''"
    by (simp add: os sample_options)
  have v: "vd_error (validateDomain sample_dig ''example.com'' jsonResponse) = None"
    by (simp add: sample_validate)
  have t1: "trimmable (option_value (data_options (idata ?i)) ''type'')"
    by (simp add: os sample_options)
  have t2: "trimmable (option_value (data_options (idata ?i)) ''provider'')"
    by (simp add: os sample_options)
  have p: "providers sample_dig = cloudflare # [google]"
    by (simp add: sample_dig_def)
  have t: "''BOGUS'' \<notin> set (VALID_TYPES sample_dig)"
    by (simp add: sample_dig_def)
  have n: "\<forall>p \<in> set (providers sample_dig). provider_name p \<noteq> ''nobody''"
    by (simp add: sample_dig_def cloudflare_def google_def)
  from dig_options_fall_back [OF r v t1 t2 p] obtain opts rt rp where
    rt: "raw_string (data_options (idata ?i)) ''type'' = Inr rt"
    and rp: "raw_string (data_options (idata ?i)) ''provider'' = Inr rp"
    and ex: "execute sample_dig jsonResponse ?i =
            \<lparr>trace = [HandleDig opts, WaitUntil, ResponseCreated (jsonResponse deferred_ack)],
             result = Inr (jsonResponse deferred_ack),
             background = [dig_task sample_dig ?i opts]\<rparr>"
    and ty: "rt \<notin> set (VALID_TYPES sample_dig) \<longrightarrow> opts_types opts = [''A'']"
    and pr: "(\<forall>p \<in> set (providers sample_dig). provider_name p \<noteq> rp) \<longrightarrow>
             opts_provider opts = Some cloudflare"
    and s1: "\<forall>s. option_value (data_options (idata ?i)) ''type'' = JStr s \<longrightarrow> rt = trim s"
    and s2: "\<forall>s. option_value (data_options (idata ?i)) ''provider'' = JStr s \<longrightarrow> rp = trim s"
    by blast
  from s1 have rt': "rt = ''BOGUS''"
    by (simp add: os sample_options trim_words)
  from s2 have rp': "rp = ''nobody''"
    by (simp add: os sample_options trim_words)
  have rv: "raw_values (data_options (idata ?i)) =
     Inr \<lparr>rawDomain = ''example.com'', rawType = ''BOGUS'', rawShort = JBool False,
          rawCdflag = JBool False, rawProvider = ''nobody''\<rparr>"
    using r rt rp
    by (simp add: raw_values_def rt' rp' os raw_flag_def option_value_def or_else_def)
  have ex': "execute sample_dig jsonResponse ?i =
            \<lparr>trace = [HandleDig (dig_options sample_dig ''example.com'' ''BOGUS'' (JBool False)
                        (JBool False) ''nobody''), WaitUntil,
                      ResponseCreated (jsonResponse deferred_ack)],
             result = Inr (jsonResponse deferred_ack),
             background = [dig_task sample_dig ?i (dig_options sample_dig ''example.com''
                        ''BOGUS'' (JBool False) (JBool False) ''nobody'')]\<rparr>"
    using execute_valid [OF rv] by (simp add: sample_validate)
  from ex ex' have o: "opts = dig_options sample_dig ''example.com'' ''BOGUS'' (JBool False)
                        (JBool False) ''nobody''"
    by simp
  have d: "opts_domain opts = ''example.com'' \<and> opts_short opts = JBool False
           \<and> opts_cdflag opts = JBool False"
    by (simp add: o dig_options_def)
  from ty t have ty': "opts_types opts = [''A'']" by (simp add: rt')
  from pr n have pr': "opts_provider opts = Some cloudflare" by (simp add: rp')
  have oo: "opts = \<lparr>opts_domain = ''example.com'', opts_types = [''A''], opts_short = JBool False,
                   opts_cdflag = JBool False, opts_provider = Some cloudflare\<rparr>"
    using d ty' pr' by (cases opts) simp
  show ?thesis
    using r v p t n ex by (simp add: oo list_all_iff)
qed

text \<open>
  Claim C10 as stated fails. With a valid domain and the number 5 as the value of the
  \<open>type\<close> option, \<open>(5 || '').trim()\<close> throws a TypeError: \<open>execute\<close> starts no lookup and
  falls back to nothing, and the router, which finds the command under id \<open>1001\<close>, reports
  the error and answers the apology.
\<close>

theorem number_as_type_is_an_error_response:
  "raw_string (data_options (idata (sample_interaction 2 ''1001'' []
      [\<lparr>opt_name = ''domain'', opt_value = JStr '' example.com ''\<rparr>,
       \<lparr>opt_name = ''type'', opt_value = JNum 5\<rparr>,
       \<lparr>opt_name = ''provider'', opt_value = JStr ''nobody''\<rparr>]))) ''domain'' =
     Inr ''example.com''
   \<and> vd_error (validateDomain sample_dig ''example.com'' jsonResponse) = None
   \<and> option_value (data_options (idata (sample_interaction 2 ''1001'' []
      [\<lparr>opt_name = ''domain'', opt_value = JStr '' example.com ''\<rparr>,
       \<lparr>opt_name = ''type'', opt_value = JNum 5\<rparr>,
       \<lparr>opt_name = ''provider'', opt_value = JStr ''nobody''\<rparr>]))) ''type'' = JNum 5
   \<and> execute sample_dig jsonResponse (sample_interaction 2 ''1001'' []
      [\<lparr>opt_name = ''domain'', opt_value = JStr '' example.com ''\<rparr>,
       \<lparr>opt_name = ''type'', opt_value = JNum 5\<rparr>,
       \<lparr>opt_name = ''provider'', opt_value = JStr ''nobody''\<rparr>]) =
       \<lparr>trace = [], result = Inl (type_error ''trim is not a function''), background = []\<rparr>
   \<and> handleInteraction (parsing (sample_interaction 2 ''1001'' []
      [\<lparr>opt_name = ''domain'', opt_value = JStr '' example.com ''\<rparr>,
       \<lparr>opt_name = ''type'', opt_value = JNum 5\<rparr>,
       \<lparr>opt_name = ''provider'', opt_value = JStr ''nobody''\<rparr>])) signed_post =
       \<lparr>trace = [SetRequestBodyText ''raw body'', VerifyCalled signed_post ''raw body'',
                 JSONParse ''raw body'',
                 SetRequestBody (sample_interaction 2 ''1001'' []
                   [\<lparr>opt_name = ''domain'', opt_value = JStr '' example.com ''\<rparr>,
                    \<lparr>opt_name = ''type'', opt_value = JNum 5\<rparr>,
                    \<lparr>opt_name = ''provider'', opt_value = JStr ''nobody''\<rparr>]),
                 SetTransactionName ''command: dig'', SetTag ''command'' ''dig'',
                 CommandLookup ''1001'',
                 Import ''./commands/dig.js'', Execute ''./commands/dig.js'',
                 ConsoleLog (sample_interaction 2 ''1001'' []
                   [\<lparr>opt_name = ''domain'', opt_value = JStr '' example.com ''\<rparr>,
                    \<lparr>opt_name = ''type'', opt_value = JNum 5\<rparr>,
                    \<lparr>opt_name = ''provider'', opt_value = JStr ''nobody''\<rparr>]),
                 CaptureException (type_error ''trim is not a function''),
                 ResponseCreated apology],
        result = Inr apology,
        background = []\<rparr>"
proof -
  let ?os = "[\<lparr>opt_name = ''domain'', opt_value = JStr '' example.com ''\<rparr>,
       \<lparr>opt_name = ''type'', opt_value = JNum 5\<rparr>,
       \<lparr>opt_name = ''provider'', opt_value = JStr ''nobody''\<rparr>]"
  let ?i = "sample_interaction 2 ''1001'' [] ?os"
  have os: "data_options (idata ?i) = ?os"
    by (simp add: sample_interaction_simps)
  have r: "raw_string ?os ''domain'' = Inr ''example.com''"
    by (simp add: sample_options)
  have v: "vd_error (validateDomain sample_dig ''example.com'' jsonResponse) = None"
    by (simp add: sample_validate)
  have o: "option_value ?os ''type'' = JNum 5"
    by (simp add: sample_options)
  have rt: "raw_string ?os ''type'' = Inl (type_error ''trim is not a function'')"
    by (simp add: raw_string_def o or_else_def)
  have rv: "raw_values ?os = Inl (type_error ''trim is not a function'')"
    by (simp add: raw_values_def r rt)
  have ex: "execute sample_dig jsonResponse ?i =
       \<lparr>trace = [], result = Inl (type_error ''trim is not a function''), background = []\<rparr>"
    by (simp add: execute_def os rv throws_def)
  have t: "itype ?i = InteractionType_ApplicationCommand"
    by (simp add: sample_interaction_simps InteractionType_ApplicationCommand_def)
  have c: "commands (parsing ?i) ''1001'' = Some \<lparr>cmd_file = ''dig.js''\<rparr>"
    by (simp add: parsing_def sample_env_def)
  have p: "command_path \<lparr>cmd_file = ''dig.js''\<rparr> = ''./commands/dig.js''"
    by (simp add: command_path_def)
  have m: "modules (parsing ?i) (command_path \<lparr>cmd_file = ''dig.js''\<rparr>) =
             Some (Exports (execute sample_dig))"
    by (simp add: p parsing_def sample_env_def)
  have h: "handleInteraction (parsing ?i) signed_post =
       \<lparr>trace = [SetRequestBodyText ''raw body'', VerifyCalled signed_post ''raw body'',
                 JSONParse ''raw body'', SetRequestBody ?i,
                 SetTransactionName ''command: dig'', SetTag ''command'' ''dig'',
                 CommandLookup ''1001'',
                 Import ''./commands/dig.js'', Execute ''./commands/dig.js'',
                 ConsoleLog ?i,
                 CaptureException (type_error ''trim is not a function''),
                 ResponseCreated apology],
        result = Inr apology,
        background = []\<rparr>"
    by (simp add: handleInteraction_command [OF verify_signed parse_signed t]
        handleCommandInteraction_def sample_interaction_simps(2,3)
        commands_get_own [OF c] command_try_loaded [OF m] p ex after_def
        signed_post_simps)
  show ?thesis
    using r v o ex h by (simp add: os)
qed

end
